theory Spec2Isabelle
  imports Complex_Main
begin

section \<open>Python floats\<close>

text \<open>
  A Python float is a finite number, one of the two infinities, or NaN. Finite values
  are modelled by real numbers and finite arithmetic is exact: rounding and overflow of
  IEEE doubles are not part of the model. The special values follow IEEE-754 as Python
  exposes it: every comparison with NaN is false, and the functions of the \<open>math\<close>
  module raise \<open>ValueError\<close> outside their domain. The general theorems about the
  search take the distances as \<open>haversine_km\<close> returns them and use no fact of
  arithmetic; only the evaluations at concrete inputs compute with the exact values.
\<close>

datatype pyfloat = Fin real | PInf | NInf | NaN

text \<open>
  The exceptions of the program: \<open>ValueError\<close> (from \<open>math\<close> and \<open>float\<close>),
  \<open>csv.Error\<close> (raised while the rows of a CSV text are read) and any exception of
  the Parquet library.
\<close>

datatype error = ValueError | CsvError | ParquetError

fun fless :: "pyfloat \<Rightarrow> pyfloat \<Rightarrow> bool" where
  "fless NaN y = False"
| "fless x NaN = False"
| "fless (Fin a) (Fin b) = (a < b)"
| "fless x NInf = False"
| "fless PInf y = False"
| "fless NInf y = True"
| "fless (Fin a) PInf = True"

fun fle :: "pyfloat \<Rightarrow> pyfloat \<Rightarrow> bool" where
  "fle NaN y = False"
| "fle x NaN = False"
| "fle (Fin a) (Fin b) = (a \<le> b)"
| "fle NInf y = True"
| "fle x PInf = True"
| "fle x NInf = False"
| "fle PInf y = False"

fun fneg :: "pyfloat \<Rightarrow> pyfloat" where
  "fneg (Fin a) = Fin (- a)"
| "fneg PInf = NInf"
| "fneg NInf = PInf"
| "fneg NaN = NaN"

fun fadd :: "pyfloat \<Rightarrow> pyfloat \<Rightarrow> pyfloat" where
  "fadd NaN y = NaN"
| "fadd x NaN = NaN"
| "fadd (Fin a) (Fin b) = Fin (a + b)"
| "fadd PInf NInf = NaN"
| "fadd NInf PInf = NaN"
| "fadd PInf y = PInf"
| "fadd NInf y = NInf"
| "fadd (Fin a) y = y"

definition fsub :: "pyfloat \<Rightarrow> pyfloat \<Rightarrow> pyfloat" where
  "fsub x y = fadd x (fneg y)"

text \<open>The sign of a float that is not NaN, for the product of an infinity.\<close>

fun fsign :: "pyfloat \<Rightarrow> real" where
  "fsign (Fin a) = sgn a"
| "fsign PInf = 1"
| "fsign NInf = - 1"
| "fsign NaN = 0"

fun fmul :: "pyfloat \<Rightarrow> pyfloat \<Rightarrow> pyfloat" where
  "fmul NaN y = NaN"
| "fmul x NaN = NaN"
| "fmul (Fin a) (Fin b) = Fin (a * b)"
| "fmul x y =
     (if fsign x * fsign y = 0 then NaN
      else if fsign x * fsign y > 0 then PInf else NInf)"

text \<open>Division by a finite non-zero constant, as in \<open>dphi/2\<close>.\<close>

fun fdiv_const :: "pyfloat \<Rightarrow> real \<Rightarrow> pyfloat" where
  "fdiv_const (Fin a) c = Fin (a / c)"
| "fdiv_const PInf c = (if c > 0 then PInf else NInf)"
| "fdiv_const NInf c = (if c > 0 then NInf else PInf)"
| "fdiv_const NaN c = NaN"

text \<open>\<open>x ** 2\<close>.\<close>

fun fsquare :: "pyfloat \<Rightarrow> pyfloat" where
  "fsquare (Fin a) = Fin (a\<^sup>2)"
| "fsquare PInf = PInf"
| "fsquare NInf = PInf"
| "fsquare NaN = NaN"

text \<open>\<open>math.radians\<close>, \<open>math.sin\<close>, \<open>math.cos\<close>, \<open>math.sqrt\<close>, \<open>math.asin\<close>.\<close>

definition math_radians :: "pyfloat \<Rightarrow> pyfloat" where
  "math_radians x = fmul x (Fin (pi / 180))"

fun math_sin :: "pyfloat \<Rightarrow> error + pyfloat" where
  "math_sin (Fin a) = Inr (Fin (sin a))"
| "math_sin NaN = Inr NaN"
| "math_sin PInf = Inl ValueError"
| "math_sin NInf = Inl ValueError"

fun math_cos :: "pyfloat \<Rightarrow> error + pyfloat" where
  "math_cos (Fin a) = Inr (Fin (cos a))"
| "math_cos NaN = Inr NaN"
| "math_cos PInf = Inl ValueError"
| "math_cos NInf = Inl ValueError"

fun math_sqrt :: "pyfloat \<Rightarrow> error + pyfloat" where
  "math_sqrt (Fin a) = (if a < 0 then Inl ValueError else Inr (Fin (sqrt a)))"
| "math_sqrt NaN = Inr NaN"
| "math_sqrt PInf = Inr PInf"
| "math_sqrt NInf = Inl ValueError"

fun math_asin :: "pyfloat \<Rightarrow> error + pyfloat" where
  "math_asin (Fin a) = (if a < - 1 \<or> 1 < a then Inl ValueError else Inr (Fin (arcsin a)))"
| "math_asin NaN = Inr NaN"
| "math_asin PInf = Inl ValueError"
| "math_asin NInf = Inl ValueError"

text \<open>Sequencing of calls that may raise: the first exception ends the computation.\<close>

definition bind_err :: "error + 'a \<Rightarrow> ('a \<Rightarrow> error + 'b) \<Rightarrow> error + 'b" where
  "bind_err m f = (case m of Inl e \<Rightarrow> Inl e | Inr v \<Rightarrow> f v)"

section \<open>Geo math\<close>

text \<open>
  \<^verbatim>\<open>
  def haversine_km(lat1, lon1, lat2, lon2, phi1, cos_phi1):
      R = 6371.0088
      phi2 = math.radians(lat2)
      dphi = phi2 - phi1
      dlambda = math.radians(lon2 - lon1)
      a = math.sin(dphi/2)**2 + cos_phi1*math.cos(phi2)*math.sin(dlambda/2)**2
      return 2 * R * math.asin(math.sqrt(a))
  \<close>
  The parameter \<open>lat1\<close> is not used by the body.
\<close>

definition R :: real where
  "R = 63710088 / 10000"

definition haversine_km ::
  "pyfloat \<Rightarrow> pyfloat \<Rightarrow> pyfloat \<Rightarrow> pyfloat \<Rightarrow> pyfloat \<Rightarrow> pyfloat \<Rightarrow> error + pyfloat" where
  "haversine_km lat1 lon1 lat2 lon2 phi1 cos_phi1 =
     (let phi2 = math_radians lat2;
          dphi = fsub phi2 phi1;
          dlambda = math_radians (fsub lon2 lon1)
      in bind_err (math_sin (fdiv_const dphi 2)) (\<lambda>s1.
         bind_err (math_cos phi2) (\<lambda>c2.
         bind_err (math_sin (fdiv_const dlambda 2)) (\<lambda>s2.
           let a = fadd (fsquare s1) (fmul (fmul cos_phi1 c2) (fsquare s2))
           in bind_err (math_sqrt a) (\<lambda>r.
              bind_err (math_asin r) (\<lambda>t.
                Inr (fmul (fmul (Fin 2) (Fin R)) t)))))))"

section \<open>Nearest-neighbour search\<close>

text \<open>An airport is the dictionary \<open>{"name": ..., "lat": ..., "lon": ...}\<close>.\<close>

record airport =
  name :: string
  lat :: pyfloat
  lon :: pyfloat

definition MAX_AIRPORT_DISTANCE_KM :: pyfloat where
  "MAX_AIRPORT_DISTANCE_KM = Fin 300"

text \<open>
  The loop of \<open>nearest_airport\<close>, with the pair \<open>(best_name, best_dist)\<close> as its state:
  \<^verbatim>\<open>
  for a in airports:
      d = haversine_km(lat, lon, a["lat"], a["lon"], phi1, cos_phi1)
      if d < best_dist:
          best_dist = d
          best_name = a["name"]
  \<close>
\<close>

fun scan ::
  "pyfloat \<Rightarrow> pyfloat \<Rightarrow> pyfloat \<Rightarrow> pyfloat \<Rightarrow> airport list \<Rightarrow> string option \<times> pyfloat
     \<Rightarrow> error + (string option \<times> pyfloat)" where
  "scan qlat qlon phi1 cos_phi1 [] best = Inr best"
| "scan qlat qlon phi1 cos_phi1 (a # as) (best_name, best_dist) =
     bind_err (haversine_km qlat qlon (lat a) (lon a) phi1 cos_phi1) (\<lambda>d.
       if fless d best_dist
       then scan qlat qlon phi1 cos_phi1 as (Some (name a), d)
       else scan qlat qlon phi1 cos_phi1 as (best_name, best_dist))"

text \<open>
  \<open>nearest_airport\<close> returns the pair \<open>(name, error)\<close>; the query coordinates are
  \<open>qlat\<close> and \<open>qlon\<close> (\<open>lat\<close> and \<open>lon\<close> in the source).
\<close>

definition nearest_airport ::
  "pyfloat \<Rightarrow> pyfloat \<Rightarrow> airport list \<Rightarrow> error + (string option \<times> string option)" where
  "nearest_airport qlat qlon airports =
     (if airports = [] then Inr (None, None)
      else
        let phi1 = math_radians qlat
        in bind_err (math_cos phi1) (\<lambda>cos_phi1.
           bind_err (scan qlat qlon phi1 cos_phi1 airports (None, PInf)) (\<lambda>(best_name, best_dist).
             if fless MAX_AIRPORT_DISTANCE_KM best_dist then Inr (None, None)
             else Inr (best_name, None))))"

section \<open>Strings\<close>

text \<open>
  Strings are lists of 8-bit characters; the model covers ASCII text. \<open>str.strip()\<close>
  removes the ASCII white space of \<open>str.isspace\<close> at both ends (the white space beyond
  ASCII, such as U+0085 and U+00A0, is not part of the model), \<open>str.lower()\<close> maps
  \<open>A\<close>..\<open>Z\<close> to \<open>a\<close>..\<open>z\<close>.
\<close>

definition str_space :: "char \<Rightarrow> bool" where
  "str_space c = (c \<in> {CHR 0x09, CHR 0x0A, CHR 0x0B, CHR 0x0C, CHR 0x0D,
                        CHR 0x1C, CHR 0x1D, CHR 0x1E, CHR 0x1F, CHR '' ''})"

definition py_strip :: "string \<Rightarrow> string" where
  "py_strip s = rev (dropWhile str_space (rev (dropWhile str_space s)))"

definition lower_char :: "char \<Rightarrow> char" where
  "lower_char c =
     (case map_of (zip ''ABCDEFGHIJKLMNOPQRSTUVWXYZ'' ''abcdefghijklmnopqrstuvwxyz'') c of
        None \<Rightarrow> c | Some l \<Rightarrow> l)"

definition py_lower :: "string \<Rightarrow> string" where
  "py_lower s = map lower_char s"

subsection \<open>The builtin \<open>float(s)\<close>\<close>

text \<open>
  \<open>float\<close> accepts, between optional white space, an optional sign followed by
  \<open>inf\<close>, \<open>infinity\<close> or \<open>nan\<close> in any case, or by a decimal number: digits
  with an optional point and an optional exponent, where single underscores may separate
  digits. Anything else raises \<open>ValueError\<close>, which is the result \<open>None\<close> here. The
  value of a decimal number is exact (a literal too large for a double is an infinity in
  Python, one too small is zero, and both keep their exact value here).
\<close>

definition float_space :: "char \<Rightarrow> bool" where
  "float_space c = (c \<in> {CHR 0x09, CHR 0x0A, CHR 0x0B, CHR 0x0C, CHR 0x0D, CHR '' ''})"

definition is_digit :: "char \<Rightarrow> bool" where
  "is_digit c = (c \<in> set ''0123456789'')"

definition digit_val :: "char \<Rightarrow> nat" where
  "digit_val c = of_char c - 48"

text \<open>
  A digit part: the values of its digits, or \<open>None\<close> when the string is not one. The
  flag says that the previous character was a digit.
\<close>

fun digitpart :: "bool \<Rightarrow> string \<Rightarrow> nat list option" where
  "digitpart prev [] = (if prev then Some [] else None)"
| "digitpart prev (c # cs) =
     (if is_digit c then map_option ((#) (digit_val c)) (digitpart True cs)
      else if c = CHR ''_'' \<and> prev then digitpart False cs
      else None)"

definition digits_value :: "nat list \<Rightarrow> nat" where
  "digits_value ds = foldl (\<lambda>acc d. 10 * acc + d) 0 ds"

definition split_sign :: "string \<Rightarrow> bool \<times> string" where
  "split_sign s =
     (case s of
        [] \<Rightarrow> (False, [])
      | c # cs \<Rightarrow> if c = CHR ''-'' then (True, cs) else if c = CHR ''+'' then (False, cs) else (False, s))"

text \<open>The exponent after \<open>e\<close> or \<open>E\<close>: an optional sign and a digit part.\<close>

definition parse_exponent :: "string \<Rightarrow> int option" where
  "parse_exponent s =
     (case split_sign s of (neg, ds) \<Rightarrow>
        map_option (\<lambda>v. if neg then - int (digits_value v) else int (digits_value v))
          (digitpart False ds))"

text \<open>
  The mantissa: \<open>[digitpart] "." digitpart | digitpart ["."]\<close>, as the integer digits
  and the fraction digits.
\<close>

definition parse_mantissa :: "string \<Rightarrow> (nat list \<times> nat list) option" where
  "parse_mantissa m =
     (let ip = takeWhile (\<lambda>c. c \<noteq> CHR ''.'') m;
          rest = dropWhile (\<lambda>c. c \<noteq> CHR ''.'') m
      in if rest = [] then map_option (\<lambda>i. (i, [])) (digitpart False ip)
         else
           let fp = tl rest
           in if ip = [] then map_option (\<lambda>f. ([], f)) (digitpart False fp)
              else if fp = [] then map_option (\<lambda>i. (i, [])) (digitpart False ip)
              else (case (digitpart False ip, digitpart False fp) of
                      (Some i, Some f) \<Rightarrow> Some (i, f)
                    | _ \<Rightarrow> None))"

definition pow10 :: "int \<Rightarrow> real" where
  "pow10 e = (if 0 \<le> e then 10 ^ nat e else 1 / 10 ^ nat (- e))"

definition parse_number :: "string \<Rightarrow> real option" where
  "parse_number s =
     (let m = takeWhile (\<lambda>c. c \<noteq> CHR ''e'' \<and> c \<noteq> CHR ''E'') s;
          rest = dropWhile (\<lambda>c. c \<noteq> CHR ''e'' \<and> c \<noteq> CHR ''E'') s
      in case parse_mantissa m of
           None \<Rightarrow> None
         | Some (i, f) \<Rightarrow>
             (let v = real (digits_value i) + real (digits_value f) / 10 ^ length f
              in if rest = [] then Some v
                 else map_option (\<lambda>e. v * pow10 e) (parse_exponent (tl rest))))"

definition py_float :: "string \<Rightarrow> pyfloat option" where
  "py_float s =
     (let t = rev (dropWhile float_space (rev (dropWhile float_space s)))
      in case split_sign t of (neg, u) \<Rightarrow>
           if py_lower u = ''inf'' \<or> py_lower u = ''infinity''
             then Some (if neg then NInf else PInf)
           else if py_lower u = ''nan'' then Some NaN
           else map_option (\<lambda>v. Fin (if neg then - v else v)) (parse_number u))"

section \<open>Record filter\<close>

text \<open>
  A row of \<open>csv.DictReader\<close> is a dictionary from column names to strings;
  \<open>row.get(key)\<close> is \<open>None\<close> for a column that the header or the row lacks.
\<close>

type_synonym row = "string \<Rightarrow> string option"

definition AIRPORT_TYPES :: "string set" where
  "AIRPORT_TYPES = {''large_airport'', ''medium_airport''}"

definition REQUIRE_SCHEDULED_SERVICE :: bool where
  "REQUIRE_SCHEDULED_SERVICE = True"

text \<open>\<open>x or ""\<close> for an optional string.\<close>

definition or_empty :: "string option \<Rightarrow> string" where
  "or_empty x = (case x of None \<Rightarrow> [] | Some v \<Rightarrow> v)"

text \<open>\<open>get = lambda row, key: (row.get(key) or "").strip()\<close>\<close>

definition get :: "row \<Rightarrow> string \<Rightarrow> string" where
  "get r key = py_strip (or_empty (r key))"

text \<open>
  The loop of \<open>_parse_airports_csv\<close> over the rows, with the list \<open>airports\<close> that
  it appends to:
  \<^verbatim>\<open>
  for row in reader:
      tp = get(row, "type")
      if tp not in AIRPORT_TYPES:
          continue
      if REQUIRE_SCHEDULED_SERVICE:
          if (row.get("scheduled_service") or "").lower().strip() != "yes":
              continue
      name = get(row, "name")
      lat_s, lon_s = row.get("latitude_deg"), row.get("longitude_deg")
      if not name or not lat_s or not lon_s:
          continue
      try:
          lat, lon = float(lat_s), float(lon_s)
      except ValueError:
          continue
      airports.append({"name": name, "lat": lat, "lon": lon})
  \<close>
\<close>

fun parse_rows :: "row list \<Rightarrow> airport list \<Rightarrow> airport list" where
  "parse_rows [] airports = airports"
| "parse_rows (r # rows) airports =
     (let tp = get r ''type''
      in if tp \<notin> AIRPORT_TYPES then parse_rows rows airports
         else if REQUIRE_SCHEDULED_SERVICE
                 \<and> py_strip (py_lower (or_empty (r ''scheduled_service''))) \<noteq> ''yes''
           then parse_rows rows airports
         else
           let nm = get r ''name'';
               lat_s = r ''latitude_deg'';
               lon_s = r ''longitude_deg''
           in if nm = [] \<or> or_empty lat_s = [] \<or> or_empty lon_s = []
                then parse_rows rows airports
              else (case py_float (or_empty lat_s) of
                      None \<Rightarrow> parse_rows rows airports
                    | Some la \<Rightarrow>
                        (case py_float (or_empty lon_s) of
                           None \<Rightarrow> parse_rows rows airports
                         | Some lo \<Rightarrow>
                             parse_rows rows
                               (airports @ [\<lparr>name = nm, lat = la, lon = lo\<rparr>]))))"

text \<open>
  \<open>_parse_airports_csv(text)\<close>. The rows come from \<open>csv.DictReader(StringIO(text))\<close>,
  a library: \<open>reader\<close> gives, for a text, the rows that the iteration yields, or the
  \<open>csv.Error\<close> that it raises (for example at a carriage return inside an unquoted
  field). The function has no handler for it.
\<close>

definition parse_airports_csv ::
  "(string \<Rightarrow> error + row list) \<Rightarrow> string \<Rightarrow> error + airport list" where
  "parse_airports_csv reader text =
     bind_err (reader text) (\<lambda>rows. Inr (parse_rows rows []))"


section \<open>Cache manager\<close>

text \<open>
  What the program shares with its environment, threaded through the functions that
  touch it:
  \<^item> \<open>AIRPORTS_CACHE\<close>: the module variable \<open>_AIRPORTS_CACHE\<close>;
  \<^item> \<open>parquet_file\<close>: the file \<open>PARQUET_FILE\<close>, absent or with its modification time and
    what \<open>_read_parquet\<close> finds in it;
  \<^item> \<open>clock\<close>: \<open>time.time()\<close>;
  \<^item> \<open>http\<close>: what \<open>requests.get\<close> does for a URL;
  \<^item> \<open>csv_reader\<close>: what \<open>csv.DictReader\<close> yields for a text;
  \<^item> \<open>write_fails\<close>: whether writing the Parquet file raises, and \<open>failed_write_leaves\<close>:
    the file that a failed write leaves behind;
  \<^item> \<open>io_log\<close>: the calls made to the file system and the network, latest last.
  The lock \<open>_AIRPORTS_LOCK\<close> and the \<open>debug\<close> printing are not modelled: calls are
  sequential.
\<close>

datatype file_content = Corrupt | Table "airport list"

record parquet =
  mtime :: real
  content :: file_content

datatype http_result = RequestException | Response nat string

datatype io_event = PathExists | GetMTime | ReadTable | WriteTable | HttpGet string

record world =
  AIRPORTS_CACHE :: "airport list"
  parquet_file :: "parquet option"
  clock :: real
  http :: "string \<Rightarrow> http_result"
  csv_reader :: "string \<Rightarrow> error + row list"
  write_fails :: bool
  failed_write_leaves :: "parquet option"
  io_log :: "io_event list"

definition OURAIRPORTS_PRIMARY :: string where
  "OURAIRPORTS_PRIMARY = ''https://ourairports.com/data/airports.csv''"

definition OURAIRPORTS_FALLBACK :: string where
  "OURAIRPORTS_FALLBACK =
     ''https://raw.githubusercontent.com/davidmegginson/ourairports-data/main/airports.csv''"

definition CACHE_TTL_SECONDS :: real where
  "CACHE_TTL_SECONDS = 7 * 24 * 3600"

definition log_io :: "io_event \<Rightarrow> world \<Rightarrow> world" where
  "log_io e w = w\<lparr>io_log := io_log w @ [e]\<rparr>"

text \<open>
  \<^verbatim>\<open>
  def _download_text(url, timeout=20):
      try:
          r = requests.get(url, timeout=timeout, headers={"User-Agent": USER_AGENT})
          r.raise_for_status()
          return r.text
      except requests.RequestException:
          return None
  \<close>
  \<open>raise_for_status\<close> raises for a status from 400 to 599.
\<close>

definition download_text :: "string \<Rightarrow> world \<Rightarrow> string option \<times> world" where
  "download_text url w =
     (case http w url of
        RequestException \<Rightarrow> (None, log_io (HttpGet url) w)
      | Response status txt \<Rightarrow>
          if 400 \<le> status \<and> status < 600 then (None, log_io (HttpGet url) w)
          else (Some txt, log_io (HttpGet url) w))"

text \<open>
  \<^verbatim>\<open>
  def _parquet_is_fresh(path):
      return os.path.exists(path) and (time.time() - os.path.getmtime(path) < CACHE_TTL_SECONDS)
  \<close>
\<close>

definition parquet_is_fresh :: "world \<Rightarrow> bool \<times> world" where
  "parquet_is_fresh w =
     (case parquet_file w of
        None \<Rightarrow> (False, log_io PathExists w)
      | Some f \<Rightarrow> (clock w - mtime f < CACHE_TTL_SECONDS, log_io GetMTime (log_io PathExists w)))"

text \<open>\<open>os.path.exists(PARQUET_FILE)\<close>\<close>

definition path_exists :: "world \<Rightarrow> bool \<times> world" where
  "path_exists w = (parquet_file w \<noteq> None, log_io PathExists w)"

text \<open>
  \<open>_write_parquet(airports)\<close> returns at once for an empty list; otherwise it builds
  the table and writes the file, and any exception of the library leaves it.
\<close>

definition write_parquet :: "airport list \<Rightarrow> world \<Rightarrow> (error + unit) \<times> world" where
  "write_parquet airports w =
     (if airports = [] then (Inr (), w)
      else if write_fails w
        then (Inl ParquetError, (log_io WriteTable w)\<lparr>parquet_file := failed_write_leaves w\<rparr>)
      else (Inr (),
            (log_io WriteTable w)\<lparr>parquet_file := Some \<lparr>mtime = clock w, content = Table airports\<rparr>\<rparr>))"

text \<open>
  \<open>_read_parquet()\<close> reads the three columns of the file and raises when the file is
  missing or unreadable.
\<close>

definition read_parquet :: "world \<Rightarrow> (error + airport list) \<times> world" where
  "read_parquet w =
     (case parquet_file w of
        None \<Rightarrow> (Inl ParquetError, log_io ReadTable w)
      | Some f \<Rightarrow>
          (case content f of
             Corrupt \<Rightarrow> (Inl ParquetError, log_io ReadTable w)
           | Table airports \<Rightarrow> (Inr airports, log_io ReadTable w)))"

text \<open>
  Steps 2 to 4 of \<open>load_airports_once\<close> and the final assignment:
  \<^verbatim>\<open>
  txt = _download_text(OURAIRPORTS_PRIMARY) or _download_text(OURAIRPORTS_FALLBACK)
  airports = _parse_airports_csv(txt) if txt else []
  if airports:
      try:
          _write_parquet(airports)
      except Exception:
          ...
  if not airports and os.path.exists(PARQUET_FILE):
      try:
          airports = _read_parquet()
      except Exception:
          airports = []
  _AIRPORTS_CACHE = airports
  return _AIRPORTS_CACHE
  \<close>
  An exception that leaves the function is the result \<open>Inl\<close>.
\<close>

definition fetch_text :: "world \<Rightarrow> string option \<times> world" where
  "fetch_text w =
     (case download_text OURAIRPORTS_PRIMARY w of
        (Some t, w1) \<Rightarrow> if t \<noteq> [] then (Some t, w1) else download_text OURAIRPORTS_FALLBACK w1
      | (None, w1) \<Rightarrow> download_text OURAIRPORTS_FALLBACK w1)"

definition fallback_read :: "airport list \<Rightarrow> world \<Rightarrow> airport list \<times> world" where
  "fallback_read airports w =
     (if airports \<noteq> [] then (airports, w)
      else case path_exists w of
             (False, w1) \<Rightarrow> (airports, w1)
           | (True, w1) \<Rightarrow>
               (case read_parquet w1 of
                  (Inl e, w2) \<Rightarrow> ([], w2)
                | (Inr stored, w2) \<Rightarrow> (stored, w2)))"

definition download_and_store :: "world \<Rightarrow> error + (airport list \<times> world)" where
  "download_and_store w =
     (case fetch_text w of (txt, w1) \<Rightarrow>
        bind_err (if or_empty txt \<noteq> [] then parse_airports_csv (csv_reader w1) (or_empty txt)
                  else Inr [])
          (\<lambda>airports.
             let w2 = (if airports \<noteq> [] then snd (write_parquet airports w1) else w1)
             in case fallback_read airports w2 of (airports', w3) \<Rightarrow>
                  Inr (airports', w3\<lparr>AIRPORTS_CACHE := airports'\<rparr>)))"

text \<open>
  \<^verbatim>\<open>
  def load_airports_once(force_refresh=False, debug=False):
      global _AIRPORTS_CACHE
      with _AIRPORTS_LOCK:
          if _AIRPORTS_CACHE and not force_refresh:
              return _AIRPORTS_CACHE
          if not force_refresh and _parquet_is_fresh(PARQUET_FILE):
              try:
                  _AIRPORTS_CACHE = _read_parquet()
                  return _AIRPORTS_CACHE
              except Exception:
                  pass
          ...
  \<close>
\<close>

definition load_airports_once :: "bool \<Rightarrow> world \<Rightarrow> error + (airport list \<times> world)" where
  "load_airports_once force_refresh w =
     (if AIRPORTS_CACHE w \<noteq> [] \<and> \<not> force_refresh then Inr (AIRPORTS_CACHE w, w)
      else if force_refresh then download_and_store w
      else case parquet_is_fresh w of
             (False, w1) \<Rightarrow> download_and_store w1
           | (True, w1) \<Rightarrow>
               (case read_parquet w1 of
                  (Inr stored, w2) \<Rightarrow> Inr (stored, w2\<lparr>AIRPORTS_CACHE := stored\<rparr>)
                | (Inl e, w2) \<Rightarrow> download_and_store w2))"

section \<open>Public lookup\<close>

text \<open>
  \<^verbatim>\<open>
  def get_nearest_airport(lat, lon, *, refresh_airports=False, debug=False):
      if not (-90.0 <= lat <= 90.0 and -180.0 <= lon <= 180.0):
          return {"airport": None, "error": "Invalid coordinates"}
      airports = load_airports_once(force_refresh=refresh_airports, debug=debug)
      airport, err = nearest_airport(lat, lon, airports, debug=debug)
      return {"airport": airport if airport else None, "error": err if err else None}
  \<close>
  The result dictionary is the record \<open>answer\<close>.
\<close>

record answer =
  airport_name :: "string option"
  error_text :: "string option"

text \<open>\<open>x if x else None\<close> for an optional string: the empty string is falsy.\<close>

definition truthy_or_None :: "string option \<Rightarrow> string option" where
  "truthy_or_None x = (if or_empty x \<noteq> [] then x else None)"

text \<open>The guard \<open>-90.0 <= lat <= 90.0 and -180.0 <= lon <= 180.0\<close>.\<close>

definition valid_coords :: "pyfloat \<Rightarrow> pyfloat \<Rightarrow> bool" where
  "valid_coords qlat qlon =
     (fle (Fin (- 90)) qlat \<and> fle qlat (Fin 90) \<and> fle (Fin (- 180)) qlon \<and> fle qlon (Fin 180))"

definition get_nearest_airport ::
  "pyfloat \<Rightarrow> pyfloat \<Rightarrow> bool \<Rightarrow> world \<Rightarrow> error + (answer \<times> world)" where
  "get_nearest_airport qlat qlon refresh_airports w =
     (if \<not> valid_coords qlat qlon
        then Inr (\<lparr>airport_name = None, error_text = Some ''Invalid coordinates''\<rparr>, w)
      else
        bind_err (load_airports_once refresh_airports w) (\<lambda>(airports, w1).
        bind_err (nearest_airport qlat qlon airports) (\<lambda>(airport, err).
          Inr (\<lparr>airport_name = truthy_or_None airport, error_text = truthy_or_None err\<rparr>, w1))))"


section \<open>Definitions for the statements\<close>

text \<open>
  The distance of the specification, \<open>distanceKm(lat1, lon1, lat2, lon2)\<close>: the
  haversine formula on degrees with the mean Earth radius 6371.0088 km, where the radian
  conversion and the cosine of the first latitude are computed for each pair.
\<close>

definition distanceKm :: "pyfloat \<Rightarrow> pyfloat \<Rightarrow> pyfloat \<Rightarrow> pyfloat \<Rightarrow> error + pyfloat" where
  "distanceKm lat1 lon1 lat2 lon2 =
     (let phi1 = math_radians lat1;
          phi2 = math_radians lat2;
          dphi = fsub phi2 phi1;
          dlambda = math_radians (fsub lon2 lon1)
      in bind_err (math_sin (fdiv_const dphi 2)) (\<lambda>s1.
         bind_err (math_cos phi1) (\<lambda>c1.
         bind_err (math_cos phi2) (\<lambda>c2.
         bind_err (math_sin (fdiv_const dlambda 2)) (\<lambda>s2.
           let a = fadd (fsquare s1) (fmul (fmul c1 c2) (fsquare s2))
           in bind_err (math_sqrt a) (\<lambda>r.
              bind_err (math_asin r) (\<lambda>t.
                Inr (fmul (fmul (Fin 2) (Fin R)) t))))))))"

text \<open>
  The filter of the specification read word for word, on the fields as the row has them:
  the category is one of the two types, the scheduled-service flag is \<open>yes\<close> in any
  case, the name is not empty, latitude and longitude parse.
\<close>

definition spec_keeps :: "row \<Rightarrow> bool" where
  "spec_keeps r =
     (or_empty (r ''type'') \<in> AIRPORT_TYPES
      \<and> py_lower (or_empty (r ''scheduled_service'')) = ''yes''
      \<and> or_empty (r ''name'') \<noteq> []
      \<and> py_float (or_empty (r ''latitude_deg'')) \<noteq> None
      \<and> py_float (or_empty (r ''longitude_deg'')) \<noteq> None)"

text \<open>
  The filter as amended: category, flag and name are compared after white space is
  removed at both ends.
\<close>

definition keeps :: "row \<Rightarrow> bool" where
  "keeps r =
     (get r ''type'' \<in> AIRPORT_TYPES
      \<and> py_strip (py_lower (or_empty (r ''scheduled_service''))) = ''yes''
      \<and> get r ''name'' \<noteq> []
      \<and> py_float (or_empty (r ''latitude_deg'')) \<noteq> None
      \<and> py_float (or_empty (r ''longitude_deg'')) \<noteq> None)"

definition airport_of :: "row \<Rightarrow> airport" where
  "airport_of r =
     \<lparr>name = get r ''name'',
      lat = the (py_float (or_empty (r ''latitude_deg''))),
      lon = the (py_float (or_empty (r ''longitude_deg'')))\<rparr>"

subsection \<open>Concrete inputs\<close>

text \<open>
  Two airports at the same place, one on the other side of the Earth, and a record whose
  coordinates are NaN (\<open>float\<close> accepts the field \<open>nan\<close>).
\<close>

definition origin_a :: airport where
  "origin_a = \<lparr>name = ''A'', lat = Fin 0, lon = Fin 0\<rparr>"


definition antipode :: airport where
  "antipode = \<lparr>name = ''Far'', lat = Fin 0, lon = Fin 180\<rparr>"

definition nowhere :: airport where
  "nowhere = \<lparr>name = ''N'', lat = NaN, lon = NaN\<rparr>"

definition csv_header :: string where
  "csv_header = ''type,scheduled_service,name,latitude_deg,longitude_deg''"

text \<open>A large airport with scheduled service whose latitude is 91 degrees.\<close>

definition csv_lat91 :: string where
  "csv_lat91 = csv_header @ [CHR 0x0A] @ ''large_airport,yes,X,91,0'' @ [CHR 0x0A]"

definition row_lat91 :: row where
  "row_lat91 =
     [''type'' \<mapsto> ''large_airport'', ''scheduled_service'' \<mapsto> ''yes'', ''name'' \<mapsto> ''X'',
      ''latitude_deg'' \<mapsto> ''91'', ''longitude_deg'' \<mapsto> ''0'']"

definition reader_lat91 :: "string \<Rightarrow> error + row list" where
  "reader_lat91 t = (if t = csv_lat91 then Inr [row_lat91] else Inr [])"

text \<open>A row whose name is one space.\<close>

definition csv_blank_name :: string where
  "csv_blank_name = csv_header @ [CHR 0x0A] @ ''large_airport,yes, ,1,2'' @ [CHR 0x0A]"

definition row_blank_name :: row where
  "row_blank_name =
     [''type'' \<mapsto> ''large_airport'', ''scheduled_service'' \<mapsto> ''yes'', ''name'' \<mapsto> '' '',
      ''latitude_deg'' \<mapsto> ''1'', ''longitude_deg'' \<mapsto> ''2'']"

definition reader_blank_name :: "string \<Rightarrow> error + row list" where
  "reader_blank_name t = (if t = csv_blank_name then Inr [row_blank_name] else Inr [])"

text \<open>Rows that the filter keeps and drops, in one text.\<close>

definition row_padded :: row where
  "row_padded =
     [''type'' \<mapsto> '' medium_airport'', ''scheduled_service'' \<mapsto> ''YES '', ''name'' \<mapsto> '' Y '',
      ''latitude_deg'' \<mapsto> ''-1.5'', ''longitude_deg'' \<mapsto> ''2e1'']"

definition row_small :: row where
  "row_small =
     [''type'' \<mapsto> ''small_airport'', ''scheduled_service'' \<mapsto> ''yes'', ''name'' \<mapsto> ''Z'',
      ''latitude_deg'' \<mapsto> ''1'', ''longitude_deg'' \<mapsto> ''2'']"

definition reader_mixed :: "string \<Rightarrow> error + row list" where
  "reader_mixed t = Inr [row_lat91, row_small, row_padded, row_blank_name]"

text \<open>
  A text with a carriage return inside an unquoted field: iterating
  \<open>csv.DictReader(StringIO(text))\<close> raises \<open>csv.Error\<close> (new-line character seen in
  unquoted field).
\<close>

definition csv_bare_cr :: string where
  "csv_bare_cr = csv_header @ [CHR 0x0A] @ ''large_airport,yes,X'' @ [CHR 0x0D] @ ''Y,1,0'' @ [CHR 0x0A]"

definition reader_bare_cr :: "string \<Rightarrow> error + row list" where
  "reader_bare_cr t = (if t = csv_bare_cr then Inl CsvError else Inr [])"

definition http_bare_cr :: "string \<Rightarrow> http_result" where
  "http_bare_cr url = (if url = OURAIRPORTS_PRIMARY then Response 200 csv_bare_cr else RequestException)"

definition http_down :: "string \<Rightarrow> http_result" where
  "http_down url = RequestException"

text \<open>A first call on a machine without a cache file, the primary source sending that text.\<close>

definition world_bare_cr :: world where
  "world_bare_cr =
     \<lparr>AIRPORTS_CACHE = [], parquet_file = None, clock = 0, http = http_bare_cr,
      csv_reader = reader_bare_cr, write_fails = False, failed_write_leaves = None, io_log = []\<rparr>"

text \<open>A machine without a cache file and without network.\<close>

definition world_offline :: world where
  "world_offline =
     \<lparr>AIRPORTS_CACHE = [], parquet_file = None, clock = 0, http = http_down,
      csv_reader = reader_lat91, write_fails = False, failed_write_leaves = None, io_log = []\<rparr>"




section \<open>Properties of the distance and of the search\<close>

lemma fless_Fin_trans: "a \<le> b \<Longrightarrow> fless (Fin b) x \<Longrightarrow> fless (Fin a) x"
  by (cases x) auto

lemma fless_Fin_between: "fless (Fin a) x \<Longrightarrow> \<not> fless (Fin b) x \<Longrightarrow> a < b"
  by (cases x) auto

lemma scan_Cons_Fin:
  "haversine_km qlat qlon (lat a) (lon a) phi1 c = Inr d \<Longrightarrow>
   scan qlat qlon phi1 c (a # as) (bn, bd) =
     (if fless d bd then scan qlat qlon phi1 c as (Some (name a), d)
      else scan qlat qlon phi1 c as (bn, bd))"
  by (simp add: bind_err_def)

lemma scan_first_minimum:
  assumes "\<forall>a\<in>set as. haversine_km qlat qlon (lat a) (lon a) phi1 c = Inr (Fin (km a))"
  shows "(scan qlat qlon phi1 c as (bn, bd) = Inr (bn, bd) \<and> (\<forall>a\<in>set as. \<not> fless (Fin (km a)) bd))
       \<or> (\<exists>xs a ys. as = xs @ a # ys
            \<and> scan qlat qlon phi1 c as (bn, bd) = Inr (Some (name a), Fin (km a))
            \<and> fless (Fin (km a)) bd
            \<and> (\<forall>x\<in>set xs. km a < km x) \<and> (\<forall>y\<in>set ys. km a \<le> km y))"
  using assms
proof (induction as arbitrary: bn bd)
  case Nil
  then show ?case by simp
next
  case (Cons a as)
  have ha: "haversine_km qlat qlon (lat a) (lon a) phi1 c = Inr (Fin (km a))"
    using Cons.prems by simp
  have rest: "\<forall>b\<in>set as. haversine_km qlat qlon (lat b) (lon b) phi1 c = Inr (Fin (km b))"
    using Cons.prems by simp
  show ?case
  proof (cases "fless (Fin (km a)) bd")
    case True
    then have step: "scan qlat qlon phi1 c (a # as) (bn, bd) = scan qlat qlon phi1 c as (Some (name a), Fin (km a))"
      using scan_Cons_Fin [OF ha] by simp
    from Cons.IH [OF rest, of "Some (name a)" "Fin (km a)"]
    show ?thesis
    proof (elim disjE conjE exE)
      assume keep: "scan qlat qlon phi1 c as (Some (name a), Fin (km a)) = Inr (Some (name a), Fin (km a))"
        and none: "\<forall>b\<in>set as. \<not> fless (Fin (km b)) (Fin (km a))"
      have "\<forall>y\<in>set as. km a \<le> km y" using none by auto
      then show ?thesis
        using step keep True
        by (intro disjI2 exI [of _ "[]"] exI [of _ a] exI [of _ as]) simp
    next
      fix xs b ys
      assume dec: "as = xs @ b # ys"
        and res: "scan qlat qlon phi1 c as (Some (name a), Fin (km a)) = Inr (Some (name b), Fin (km b))"
        and lt: "fless (Fin (km b)) (Fin (km a))"
        and before: "\<forall>x\<in>set xs. km b < km x" and after: "\<forall>y\<in>set ys. km b \<le> km y"
      have "a # as = (a # xs) @ b # ys" using dec by simp
      moreover have "\<forall>x\<in>set (a # xs). km b < km x" using lt before by simp
      moreover have "fless (Fin (km b)) bd" using lt True fless_Fin_trans [of "km b" "km a" bd] by simp
      ultimately show ?thesis
        using step res after
        by (intro disjI2 exI [of _ "a # xs"] exI [of _ b] exI [of _ ys]) simp
    qed
  next
    case False
    then have step: "scan qlat qlon phi1 c (a # as) (bn, bd) = scan qlat qlon phi1 c as (bn, bd)"
      using scan_Cons_Fin [OF ha] by simp
    from Cons.IH [OF rest, of bn bd]
    show ?thesis
    proof (elim disjE conjE exE)
      assume "scan qlat qlon phi1 c as (bn, bd) = Inr (bn, bd)"
        and "\<forall>b\<in>set as. \<not> fless (Fin (km b)) bd"
      then show ?thesis using step False by simp
    next
      fix xs b ys
      assume dec: "as = xs @ b # ys"
        and res: "scan qlat qlon phi1 c as (bn, bd) = Inr (Some (name b), Fin (km b))"
        and lt: "fless (Fin (km b)) bd"
        and before: "\<forall>x\<in>set xs. km b < km x" and after: "\<forall>y\<in>set ys. km b \<le> km y"
      have "a # as = (a # xs) @ b # ys" using dec by simp
      moreover have "\<forall>x\<in>set (a # xs). km b < km x"
        using fless_Fin_between [OF lt False] before by simp
      ultimately show ?thesis
        using step res after lt
        by (intro disjI2 exI [of _ "a # xs"] exI [of _ b] exI [of _ ys]) simp
    qed
  qed
qed






lemma fless_trans: "fless x y \<Longrightarrow> fless y z \<Longrightarrow> fless x z"
  by (cases x; cases y; cases z) simp_all

lemma not_fless_imp_fle: "fless x PInf \<Longrightarrow> \<not> fless (Fin r) x \<Longrightarrow> fle x (Fin r)"
  by (cases x) simp_all

lemma scan_result_general:
  "scan qlat qlon phi1 c as (bn, bd) = Inr (bn', bd') \<Longrightarrow>
   (bn' = bn \<and> bd' = bd)
   \<or> (\<exists>a\<in>set as. bn' = Some (name a)
         \<and> haversine_km qlat qlon (lat a) (lon a) phi1 c = Inr bd' \<and> fless bd' bd)"
proof (induction as arbitrary: bn bd)
  case Nil
  then show ?case by simp
next
  case (Cons a as)
  obtain d where d: "haversine_km qlat qlon (lat a) (lon a) phi1 c = Inr d"
    using Cons.prems by (cases "haversine_km qlat qlon (lat a) (lon a) phi1 c") (simp_all add: bind_err_def)
  show ?case
  proof (cases "fless d bd")
    case True
    then have "scan qlat qlon phi1 c as (Some (name a), d) = Inr (bn', bd')"
      using Cons.prems scan_Cons_Fin [OF d] by simp
    from Cons.IH [OF this] show ?thesis
    proof (elim disjE conjE bexE)
      assume "bn' = Some (name a)" "bd' = d"
      then show ?thesis using d True by simp
    next
      fix b
      assume "b \<in> set as" "bn' = Some (name b)"
        "haversine_km qlat qlon (lat b) (lon b) phi1 c = Inr bd'" "fless bd' d"
      then show ?thesis using fless_trans [OF _ True] by auto
    qed
  next
    case False
    then have "scan qlat qlon phi1 c as (bn, bd) = Inr (bn', bd')"
      using Cons.prems scan_Cons_Fin [OF d] by simp
    from Cons.IH [OF this] show ?thesis by auto
  qed
qed

lemma nearest_airport_unfold:
  assumes "math_cos (math_radians qlat) = Inr c"
    and "scan qlat qlon (math_radians qlat) c airports (None, PInf) = Inr (best_name, best_dist)"
  shows "nearest_airport qlat qlon airports =
           (if airports = [] \<or> fless MAX_AIRPORT_DISTANCE_KM best_dist then Inr (None, None)
            else Inr (best_name, None))"
  using assms by (simp add: nearest_airport_def bind_err_def Let_def)

text \<open>
  Claim C5. After the scan, for every query and every list: when the best distance is
  greater than \<open>MAX_AIRPORT_DISTANCE_KM\<close> the result is not-found; otherwise the best
  distance is at most the radius, it is the distance of a record of the list, and the name
  of that record is returned.
\<close>

theorem nearest_airport_radius:
  assumes cos: "math_cos (math_radians qlat) = Inr c"
    and res: "scan qlat qlon (math_radians qlat) c airports (None, PInf) = Inr (best_name, best_dist)"
  shows "(fless MAX_AIRPORT_DISTANCE_KM best_dist \<longrightarrow>
            nearest_airport qlat qlon airports = Inr (None, None))
       \<and> (\<not> fless MAX_AIRPORT_DISTANCE_KM best_dist \<longrightarrow>
            fle best_dist MAX_AIRPORT_DISTANCE_KM
            \<and> (\<exists>a\<in>set airports.
                  best_name = Some (name a)
                  \<and> haversine_km qlat qlon (lat a) (lon a) (math_radians qlat) c = Inr best_dist
                  \<and> nearest_airport qlat qlon airports = Inr (Some (name a), None)))"
proof (intro conjI impI)
  assume "fless MAX_AIRPORT_DISTANCE_KM best_dist"
  then show "nearest_airport qlat qlon airports = Inr (None, None)"
    using nearest_airport_unfold [OF cos res] by simp
next
  assume near: "\<not> fless MAX_AIRPORT_DISTANCE_KM best_dist"
  then have "best_dist \<noteq> PInf" by (auto simp: MAX_AIRPORT_DISTANCE_KM_def)
  with scan_result_general [OF res]
  obtain a where a: "a \<in> set airports" "best_name = Some (name a)"
      "haversine_km qlat qlon (lat a) (lon a) (math_radians qlat) c = Inr best_dist"
      "fless best_dist PInf"
    by auto
  show "fle best_dist MAX_AIRPORT_DISTANCE_KM"
    using not_fless_imp_fle [OF a(4)] near by (simp add: MAX_AIRPORT_DISTANCE_KM_def)
  have "airports \<noteq> []" using a(1) by auto
  then have "nearest_airport qlat qlon airports = Inr (Some (name a), None)"
    using nearest_airport_unfold [OF cos res] near a(2) by simp
  then show "\<exists>a\<in>set airports.
      best_name = Some (name a)
      \<and> haversine_km qlat qlon (lat a) (lon a) (math_radians qlat) c = Inr best_dist
      \<and> nearest_airport qlat qlon airports = Inr (Some (name a), None)"
    using a by blast
qed

lemma radians_zero: "math_radians (Fin 0) = Fin 0"
  by (simp add: math_radians_def)

lemma cos_radians_zero: "math_cos (math_radians (Fin 0)) = Inr (Fin 1)"
  by (simp add: radians_zero)

lemma haversine_origin_a:
  "haversine_km (Fin 0) (Fin 0) (lat origin_a) (lon origin_a) (math_radians (Fin 0)) (Fin 1) = Inr (Fin 0)"
  by (simp add: origin_a_def haversine_km_def math_radians_def fsub_def bind_err_def)


lemma haversine_antipode:
  "haversine_km (Fin 0) (Fin 0) (lat antipode) (lon antipode) (math_radians (Fin 0)) (Fin 1) = Inr (Fin (R * pi))"
  by (simp add: antipode_def haversine_km_def math_radians_def fsub_def bind_err_def)

lemma antipode_far: "300 < R * pi"
proof -
  have "300 < R * 2" by (simp add: R_def)
  also have "\<dots> \<le> R * pi" using pi_ge_two by (simp add: R_def)
  finally show ?thesis .
qed

lemma scan_far_near:
  "scan (Fin 0) (Fin 0) (math_radians (Fin 0)) (Fin 1) [antipode, origin_a] (None, PInf) = Inr (Some ''A'', Fin 0)"
proof -
  have "0 < R * pi" using antipode_far by linarith
  then have "fless (Fin 0) (Fin (R * pi))" by simp
  then have "scan (Fin 0) (Fin 0) (math_radians (Fin 0)) (Fin 1) [origin_a] (Some (name antipode), Fin (R * pi))
      = Inr (Some (name origin_a), Fin 0)"
    using scan_Cons_Fin [OF haversine_origin_a, of "[]" "Some (name antipode)" "Fin (R * pi)"] by simp
  then have "scan (Fin 0) (Fin 0) (math_radians (Fin 0)) (Fin 1) [antipode, origin_a] (None, PInf)
      = Inr (Some (name origin_a), Fin 0)"
    using scan_Cons_Fin [OF haversine_antipode, of "[origin_a]" None PInf] by simp
  then show ?thesis by (simp add: origin_a_def)
qed

lemma scan_far:
  "scan (Fin 0) (Fin 0) (math_radians (Fin 0)) (Fin 1) [antipode] (None, PInf) = Inr (Some ''Far'', Fin (R * pi))"
proof -
  have "scan (Fin 0) (Fin 0) (math_radians (Fin 0)) (Fin 1) [antipode] (None, PInf)
      = Inr (Some (name antipode), Fin (R * pi))"
    using scan_Cons_Fin [OF haversine_antipode, of "[]" None PInf] by simp
  then show ?thesis by (simp add: antipode_def)
qed

theorem nearest_airport_radius_witness:
  "math_cos (math_radians (Fin 0)) = Inr (Fin 1)
   \<and> scan (Fin 0) (Fin 0) (math_radians (Fin 0)) (Fin 1) [antipode, origin_a] (None, PInf) = Inr (Some ''A'', Fin 0)
   \<and> \<not> fless MAX_AIRPORT_DISTANCE_KM (Fin 0)
   \<and> nearest_airport (Fin 0) (Fin 0) [antipode, origin_a] = Inr (Some ''A'', None)
   \<and> scan (Fin 0) (Fin 0) (math_radians (Fin 0)) (Fin 1) [antipode] (None, PInf) = Inr (Some ''Far'', Fin (R * pi))
   \<and> fless MAX_AIRPORT_DISTANCE_KM (Fin (R * pi))
   \<and> nearest_airport (Fin 0) (Fin 0) [antipode] = Inr (None, None)"
proof -
  have near: "\<not> fless MAX_AIRPORT_DISTANCE_KM (Fin 0)"
    by (simp add: MAX_AIRPORT_DISTANCE_KM_def)
  have far: "fless MAX_AIRPORT_DISTANCE_KM (Fin (R * pi))"
    using antipode_far by (simp add: MAX_AIRPORT_DISTANCE_KM_def)
  have "nearest_airport (Fin 0) (Fin 0) [antipode, origin_a] = Inr (Some ''A'', None)"
    using nearest_airport_radius [OF cos_radians_zero scan_far_near] near
    by (auto simp: origin_a_def antipode_def)
  moreover have "nearest_airport (Fin 0) (Fin 0) [antipode] = Inr (None, None)"
    using nearest_airport_radius [OF cos_radians_zero scan_far] far by simp
  ultimately show ?thesis
    using cos_radians_zero scan_far_near scan_far near far by simp
qed

lemma haversine_nowhere:
  "haversine_km (Fin 0) (Fin 0) (lat nowhere) (lon nowhere) (math_radians (Fin 0)) (Fin 1) = Inr NaN"
  by (simp add: nowhere_def haversine_km_def math_radians_def fsub_def bind_err_def)

text \<open>
  Claim C1 says that for a valid query and every non-empty list the scan selects a record
  whose distance is at most that of every record. The comparison \<open>d < best_dist\<close> is
  false when \<open>d\<close> is NaN: for the list of the one record with NaN coordinates the distance
  is NaN, no record is selected, and \<open>nearest_airport\<close> returns not-found.
\<close>

theorem nan_record_not_selected:
  "valid_coords (Fin 0) (Fin 0) \<and> [nowhere] \<noteq> []
   \<and> haversine_km (Fin 0) (Fin 0) (lat nowhere) (lon nowhere) (math_radians (Fin 0)) (Fin 1) = Inr NaN
   \<and> scan (Fin 0) (Fin 0) (math_radians (Fin 0)) (Fin 1) [nowhere] (None, PInf) = Inr (None, PInf)
   \<and> nearest_airport (Fin 0) (Fin 0) [nowhere] = Inr (None, None)"
proof -
  have s: "scan (Fin 0) (Fin 0) (math_radians (Fin 0)) (Fin 1) [nowhere] (None, PInf) = Inr (None, PInf)"
    using scan_Cons_Fin [OF haversine_nowhere, of "[]" None PInf] by simp
  have "nearest_airport (Fin 0) (Fin 0) [nowhere] = Inr (None, None)"
    using nearest_airport_unfold [OF cos_radians_zero s] by (simp add: MAX_AIRPORT_DISTANCE_KM_def)
  then show ?thesis
    using s haversine_nowhere by (simp add: valid_coords_def)
qed

text \<open>
  Claim C1, amended. For valid query coordinates and a non-empty list of airports, when
  \<open>haversine_km\<close> returns a number for every record of the list (it raises nothing and
  its result is not NaN), the loop of \<open>nearest_airport\<close> selects a record of the list
  whose distance to the query is at most the distance of every record of the list, and
  the function returns the name of that record unless its distance is beyond the radius.
  The statement is about the distances as \<open>haversine_km\<close> returns them, whatever their
  values are.
\<close>

theorem nearest_airport_global_minimum:
  assumes valid: "valid_coords qlat qlon"
    and cos: "math_cos (math_radians qlat) = Inr c"
    and nonempty: "airports \<noteq> []"
    and numbers: "\<forall>b\<in>set airports. \<exists>d'.
                    haversine_km qlat qlon (lat b) (lon b) (math_radians qlat) c = Inr (Fin d')"
  shows "\<exists>a d.
           a \<in> set airports
           \<and> scan qlat qlon (math_radians qlat) c airports (None, PInf) = Inr (Some (name a), Fin d)
           \<and> haversine_km qlat qlon (lat a) (lon a) (math_radians qlat) c = Inr (Fin d)
           \<and> (\<forall>b\<in>set airports. \<exists>d'.
                 haversine_km qlat qlon (lat b) (lon b) (math_radians qlat) c = Inr (Fin d') \<and> d \<le> d')
           \<and> nearest_airport qlat qlon airports = Inr (if 300 < d then None else Some (name a), None)"
proof -
  define km where
    "km b = (case haversine_km qlat qlon (lat b) (lon b) (math_radians qlat) c of Inr (Fin r) \<Rightarrow> r | _ \<Rightarrow> 0)"
    for b :: airport
  have hav: "\<forall>b\<in>set airports. haversine_km qlat qlon (lat b) (lon b) (math_radians qlat) c = Inr (Fin (km b))"
    using numbers by (auto simp: km_def)
  from scan_first_minimum [OF hav, of None PInf]
  show ?thesis
  proof (elim disjE conjE exE)
    assume "\<forall>a\<in>set airports. \<not> fless (Fin (km a)) PInf"
    then show ?thesis using nonempty by (cases airports) auto
  next
    fix xs a ys
    assume dec: "airports = xs @ a # ys"
      and res: "scan qlat qlon (math_radians qlat) c airports (None, PInf) = Inr (Some (name a), Fin (km a))"
      and before: "\<forall>x\<in>set xs. km a < km x" and after: "\<forall>y\<in>set ys. km a \<le> km y"
    have mem: "a \<in> set airports" using dec by simp
    have min: "\<forall>b\<in>set airports. km a \<le> km b"
      using dec before after by auto
    have "nearest_airport qlat qlon airports = Inr (if 300 < km a then None else Some (name a), None)"
      using nearest_airport_unfold [OF cos res] nonempty
      by (simp add: MAX_AIRPORT_DISTANCE_KM_def)
    then show ?thesis
      using mem res hav min by (intro exI [of _ a] exI [of _ "km a"]) auto
  qed
qed

theorem nearest_airport_global_minimum_witness:
  "valid_coords (Fin 0) (Fin 0)
   \<and> math_cos (math_radians (Fin 0)) = Inr (Fin 1)
   \<and> [antipode, origin_a] \<noteq> []
   \<and> haversine_km (Fin 0) (Fin 0) (lat antipode) (lon antipode) (math_radians (Fin 0)) (Fin 1) = Inr (Fin (R * pi))
   \<and> haversine_km (Fin 0) (Fin 0) (lat origin_a) (lon origin_a) (math_radians (Fin 0)) (Fin 1) = Inr (Fin 0)
   \<and> (\<exists>a d.
         a \<in> set [antipode, origin_a]
         \<and> scan (Fin 0) (Fin 0) (math_radians (Fin 0)) (Fin 1) [antipode, origin_a] (None, PInf)
             = Inr (Some (name a), Fin d)
         \<and> haversine_km (Fin 0) (Fin 0) (lat a) (lon a) (math_radians (Fin 0)) (Fin 1) = Inr (Fin d)
         \<and> (\<forall>b\<in>set [antipode, origin_a]. \<exists>d'.
               haversine_km (Fin 0) (Fin 0) (lat b) (lon b) (math_radians (Fin 0)) (Fin 1) = Inr (Fin d')
               \<and> d \<le> d')
         \<and> nearest_airport (Fin 0) (Fin 0) [antipode, origin_a]
             = Inr (if 300 < d then None else Some (name a), None))"
proof -
  have v: "valid_coords (Fin 0) (Fin 0)" by (simp add: valid_coords_def)
  have n: "[antipode, origin_a] \<noteq> []" by simp
  have h: "\<forall>b\<in>set [antipode, origin_a]. \<exists>d'.
      haversine_km (Fin 0) (Fin 0) (lat b) (lon b) (math_radians (Fin 0)) (Fin 1) = Inr (Fin d')"
    using haversine_antipode haversine_origin_a by simp
  show ?thesis
    using v n cos_radians_zero haversine_antipode haversine_origin_a
      nearest_airport_global_minimum [OF v cos_radians_zero n h]
    by blast
qed



text \<open>
  Claim C9. Computing \<open>phi1 = radians(lat1)\<close> and \<open>cos_phi1 = cos(phi1)\<close> once, as
  \<open>nearest_airport\<close> does before its loop, and passing them to \<open>haversine_km\<close> gives
  the same outcome (the same distance, or the same exception) as the formula that
  converts and takes the cosine for each pair. Both sides apply the same operations to
  the same operands, so the equality does not depend on how the operations round.
\<close>

theorem precomputation_equivalence:
  "bind_err (math_cos (math_radians lat1))
     (\<lambda>cos_phi1. haversine_km lat1 lon1 lat2 lon2 (math_radians lat1) cos_phi1)
   = distanceKm lat1 lon1 lat2 lon2"
proof (cases "math_cos (math_radians lat1)")
  case (Inr c)
  then show ?thesis
    by (simp add: haversine_km_def distanceKm_def bind_err_def Let_def split: sum.splits)
next
  case (Inl e)
  then have inf: "math_radians lat1 = PInf \<or> math_radians lat1 = NInf" and e: "e = ValueError"
    by (cases "math_radians lat1"; simp)+
  have "math_sin (fdiv_const (fsub (math_radians lat2) (math_radians lat1)) 2) = Inl ValueError
      \<or> math_sin (fdiv_const (fsub (math_radians lat2) (math_radians lat1)) 2) = Inr NaN"
    using inf by (cases "math_radians lat2") (auto simp: fsub_def)
  then show ?thesis
    using Inl e by (auto simp: distanceKm_def bind_err_def Let_def split: sum.splits)
qed

theorem precomputation_equivalence_witness:
  "distanceKm (Fin 0) (Fin 0) (lat antipode) (lon antipode) = Inr (Fin (R * pi))"
  using precomputation_equivalence [of "Fin 0" "Fin 0" "lat antipode" "lon antipode"]
  by (simp add: cos_radians_zero haversine_antipode bind_err_def)



section \<open>Properties of the record filter\<close>

lemma py_float_empty: "py_float [] = None"
  by (simp add: py_float_def split_sign_def py_lower_def parse_number_def parse_mantissa_def)

lemma parse_rows_filter: "parse_rows rows airports = airports @ map airport_of (filter keeps rows)"
proof (induction rows arbitrary: airports)
  case Nil
  then show ?case by simp
next
  case (Cons r rows)
  show ?case
  proof (cases "keeps r")
    case True
    then obtain la lo where
      "py_float (or_empty (r ''latitude_deg'')) = Some la" "py_float (or_empty (r ''longitude_deg'')) = Some lo"
      by (auto simp: keeps_def)
    moreover from this have "or_empty (r ''latitude_deg'') \<noteq> []" "or_empty (r ''longitude_deg'') \<noteq> []"
      using py_float_empty by auto
    ultimately show ?thesis
      using True Cons.IH by (simp add: keeps_def airport_of_def REQUIRE_SCHEDULED_SERVICE_def Let_def)
  next
    case False
    then show ?thesis
      using Cons.IH py_float_empty
      by (auto simp: keeps_def REQUIRE_SCHEDULED_SERVICE_def Let_def split: option.splits)
  qed
qed

lemma parse_airports_csv_Inr:
  "reader csv = Inr rows \<Longrightarrow> parse_airports_csv reader csv = Inr (map airport_of (filter keeps rows))"
  by (simp add: parse_airports_csv_def bind_err_def parse_rows_filter)

lemma keeps_row_lat91: "keeps row_lat91"
  by (simp add: keeps_def row_lat91_def get_def or_empty_def py_strip_def str_space_def AIRPORT_TYPES_def
      py_lower_def lower_char_def py_float_def float_space_def split_sign_def parse_number_def
      parse_mantissa_def is_digit_def digit_val_def digits_value_def Let_def)

lemma airport_of_row_lat91: "airport_of row_lat91 = \<lparr>name = ''X'', lat = Fin 91, lon = Fin 0\<rparr>"
  by (simp add: airport_of_def row_lat91_def get_def or_empty_def py_strip_def str_space_def
      py_lower_def lower_char_def py_float_def float_space_def split_sign_def parse_number_def
      parse_mantissa_def is_digit_def digit_val_def digits_value_def Let_def)

lemma keeps_row_padded: "keeps row_padded"
  by (simp add: keeps_def row_padded_def get_def or_empty_def py_strip_def str_space_def AIRPORT_TYPES_def
      py_lower_def lower_char_def py_float_def float_space_def split_sign_def parse_number_def
      parse_mantissa_def parse_exponent_def pow10_def is_digit_def digit_val_def digits_value_def Let_def)

lemma airport_of_row_padded: "airport_of row_padded = \<lparr>name = ''Y'', lat = Fin (- (3 / 2)), lon = Fin 20\<rparr>"
  by (simp add: airport_of_def row_padded_def get_def or_empty_def py_strip_def str_space_def
      py_lower_def lower_char_def py_float_def float_space_def split_sign_def parse_number_def
      parse_mantissa_def parse_exponent_def pow10_def is_digit_def digit_val_def digits_value_def Let_def)

lemma not_keeps_row_small: "\<not> keeps row_small"
  by (simp add: keeps_def row_small_def get_def or_empty_def py_strip_def str_space_def AIRPORT_TYPES_def)

lemma not_keeps_row_blank_name: "\<not> keeps row_blank_name"
  by (simp add: keeps_def row_blank_name_def get_def or_empty_def py_strip_def str_space_def)

lemma spec_keeps_row_blank_name: "spec_keeps row_blank_name"
  by (simp add: spec_keeps_def row_blank_name_def or_empty_def AIRPORT_TYPES_def
      py_lower_def lower_char_def py_float_def float_space_def split_sign_def parse_number_def
      parse_mantissa_def is_digit_def digit_val_def digits_value_def Let_def)

text \<open>
  Claim C2 says that every record that \<open>_parse_airports_csv\<close> returns has a latitude in
  \<open>[-90, 90]\<close>, a longitude in \<open>[-180, 180]\<close> and a name that is not empty. The
  function never compares a coordinate with a bound: the row of a large airport with
  scheduled service and the latitude \<open>91\<close> is kept as it is.
\<close>

theorem parsed_record_out_of_bounds:
  "parse_airports_csv reader_lat91 csv_lat91 = Inr [\<lparr>name = ''X'', lat = Fin 91, lon = Fin 0\<rparr>]
   \<and> \<not> valid_coords (Fin 91) (Fin 0)"
proof -
  have "reader_lat91 csv_lat91 = Inr [row_lat91]" by (simp add: reader_lat91_def)
  then show ?thesis
    using parse_airports_csv_Inr [of reader_lat91 csv_lat91 "[row_lat91]"]
    by (simp add: keeps_row_lat91 airport_of_row_lat91 valid_coords_def)
qed

text \<open>
  Claim C2, amended. Every record that \<open>_parse_airports_csv\<close> returns has a name that is
  not empty, the name of one of the rows without the white space around it, and the
  latitude and longitude that \<open>float\<close> gives for the fields \<open>latitude_deg\<close> and
  \<open>longitude_deg\<close> of that row; the coordinates are not checked against a range.
\<close>

theorem parsed_records:
  assumes "parse_airports_csv reader csv = Inr airports" and "a \<in> set airports"
  shows "name a \<noteq> []
       \<and> (\<exists>rows r. reader csv = Inr rows \<and> r \<in> set rows \<and> name a = get r ''name''
             \<and> py_float (or_empty (r ''latitude_deg'')) = Some (lat a)
             \<and> py_float (or_empty (r ''longitude_deg'')) = Some (lon a))"
proof -
  obtain rows where rows: "reader csv = Inr rows"
    using assms(1) by (cases "reader csv") (simp_all add: parse_airports_csv_def bind_err_def)
  then have "airports = map airport_of (filter keeps rows)"
    using assms(1) parse_airports_csv_Inr [of reader csv rows] by simp
  then obtain r where r: "r \<in> set rows" "keeps r" "a = airport_of r"
    using assms(2) by auto
  then have "name a = get r ''name''" "name a \<noteq> []"
    "py_float (or_empty (r ''latitude_deg'')) = Some (lat a)"
    "py_float (or_empty (r ''longitude_deg'')) = Some (lon a)"
    by (auto simp: keeps_def airport_of_def)
  then show ?thesis using rows r(1) by blast
qed

theorem parsed_records_witness:
  "parse_airports_csv reader_lat91 csv_lat91 = Inr [\<lparr>name = ''X'', lat = Fin 91, lon = Fin 0\<rparr>]
   \<and> name \<lparr>name = ''X'', lat = Fin 91, lon = Fin 0\<rparr> \<noteq> []
   \<and> (\<exists>rows r. reader_lat91 csv_lat91 = Inr rows \<and> r \<in> set rows
         \<and> name \<lparr>name = ''X'', lat = Fin 91, lon = Fin 0\<rparr> = get r ''name''
         \<and> py_float (or_empty (r ''latitude_deg'')) = Some (lat \<lparr>name = ''X'', lat = Fin 91, lon = Fin 0\<rparr>)
         \<and> py_float (or_empty (r ''longitude_deg'')) = Some (lon \<lparr>name = ''X'', lat = Fin 91, lon = Fin 0\<rparr>))"
proof -
  have "reader_lat91 csv_lat91 = Inr [row_lat91]" by (simp add: reader_lat91_def)
  with parse_airports_csv_Inr [of reader_lat91 csv_lat91 "[row_lat91]"]
  have p: "parse_airports_csv reader_lat91 csv_lat91 = Inr [\<lparr>name = ''X'', lat = Fin 91, lon = Fin 0\<rparr>]"
    by (simp add: keeps_row_lat91 airport_of_row_lat91)
  have m: "\<lparr>name = ''X'', lat = Fin 91, lon = Fin 0\<rparr> \<in> set [\<lparr>name = ''X'', lat = Fin 91, lon = Fin 0\<rparr>]"
    by simp
  show ?thesis
    using p parsed_records [of reader_lat91 csv_lat91 "[\<lparr>name = ''X'', lat = Fin 91, lon = Fin 0\<rparr>]"
        "\<lparr>name = ''X'', lat = Fin 91, lon = Fin 0\<rparr>", OF p m]
    by blast
qed

text \<open>
  Claim C7 says that exactly the rows are kept whose type is one of the two categories,
  whose scheduled-service field is \<open>yes\<close> in any case, whose name is not empty and whose
  coordinates parse. The function compares the fields after removing the white space around
  them: a row that meets all four conditions with the name \<open>" "\<close> is dropped.
\<close>

theorem blank_name_row_dropped:
  "spec_keeps row_blank_name
   \<and> reader_blank_name csv_blank_name = Inr [row_blank_name]
   \<and> parse_airports_csv reader_blank_name csv_blank_name = Inr []"
proof -
  have r: "reader_blank_name csv_blank_name = Inr [row_blank_name]" by (simp add: reader_blank_name_def)
  show ?thesis
    using r parse_airports_csv_Inr [of reader_blank_name csv_blank_name "[row_blank_name]"]
    by (simp add: not_keeps_row_blank_name spec_keeps_row_blank_name)
qed

text \<open>
  Claim C7, amended. When the CSV reader yields the rows of the text, \<open>_parse_airports_csv\<close>
  returns, in the order of the rows and without raising, the records of exactly the rows
  whose type without surrounding white space is \<open>large_airport\<close> or \<open>medium_airport\<close>,
  whose scheduled-service field in lower case and without surrounding white space is
  \<open>yes\<close>, whose name without surrounding white space is not empty, and whose
  \<open>latitude_deg\<close> and \<open>longitude_deg\<close> are accepted by \<open>float\<close>; every other row is
  left out.
\<close>

theorem parse_airports_csv_filter:
  assumes "reader csv = Inr rows"
  shows "parse_airports_csv reader csv = Inr (map airport_of (filter keeps rows))"
  using assms by (rule parse_airports_csv_Inr)

theorem parse_airports_csv_filter_witness:
  "reader_mixed [] = Inr [row_lat91, row_small, row_padded, row_blank_name]
   \<and> parse_airports_csv reader_mixed []
       = Inr [\<lparr>name = ''X'', lat = Fin 91, lon = Fin 0\<rparr>, \<lparr>name = ''Y'', lat = Fin (- (3 / 2)), lon = Fin 20\<rparr>]"
proof -
  have r: "reader_mixed [] = Inr [row_lat91, row_small, row_padded, row_blank_name]"
    by (simp add: reader_mixed_def)
  show ?thesis
    using r parse_airports_csv_filter [of reader_mixed "[]" "[row_lat91, row_small, row_padded, row_blank_name]"]
    by (simp add: keeps_row_lat91 not_keeps_row_small keeps_row_padded not_keeps_row_blank_name
        airport_of_row_lat91 airport_of_row_padded)
qed

section \<open>Properties of the cache manager and of the lookup\<close>

lemma download_text_effect:
  "download_text url w = (r, w') \<Longrightarrow> w' = log_io (HttpGet url) w"
  by (auto simp: download_text_def split: http_result.splits if_splits)

lemma fetch_text_effect:
  assumes "fetch_text w = (r, w')"
  shows "w' = log_io (HttpGet OURAIRPORTS_PRIMARY) w
       \<or> w' = log_io (HttpGet OURAIRPORTS_FALLBACK) (log_io (HttpGet OURAIRPORTS_PRIMARY) w)"
proof -
  obtain r1 w1 where d1: "download_text OURAIRPORTS_PRIMARY w = (r1, w1)"
    by (cases "download_text OURAIRPORTS_PRIMARY w")
  then have w1: "w1 = log_io (HttpGet OURAIRPORTS_PRIMARY) w" by (rule download_text_effect)
  have "(r, w') = (r1, w1) \<or> (r, w') = download_text OURAIRPORTS_FALLBACK w1"
    using assms d1 by (cases r1) (auto simp: fetch_text_def split: if_splits)
  then show ?thesis
  proof
    assume "(r, w') = (r1, w1)"
    then show ?thesis using w1 by simp
  next
    assume "(r, w') = download_text OURAIRPORTS_FALLBACK w1"
    then have "w' = log_io (HttpGet OURAIRPORTS_FALLBACK) w1"
      using download_text_effect [of OURAIRPORTS_FALLBACK w1 r w'] by simp
    then show ?thesis using w1 by simp
  qed
qed

lemma fetch_text_log:
  "fetch_text w = (r, w') \<Longrightarrow>
     csv_reader w' = csv_reader w \<and> (\<exists>es. io_log w' = io_log w @ HttpGet OURAIRPORTS_PRIMARY # es)"
  using fetch_text_effect [of w r w'] by (auto simp: log_io_def)





lemma download_and_store_raises:
  assumes "download_and_store w = Inl e"
  shows "\<exists>t. csv_reader w t = Inl e"
proof -
  obtain t w1 where f: "fetch_text w = (t, w1)" by (cases "fetch_text w")
  have c: "csv_reader w1 = csv_reader w" using fetch_text_log [OF f] by simp
  have "(if or_empty t \<noteq> [] then parse_airports_csv (csv_reader w1) (or_empty t) else Inr []) = Inl e"
    using assms f
    by (cases "if or_empty t \<noteq> [] then parse_airports_csv (csv_reader w1) (or_empty t) else Inr []")
       (auto simp: download_and_store_def bind_err_def Let_def split: prod.splits)
  then have "csv_reader w1 (or_empty t) = Inl e"
    by (cases "csv_reader w1 (or_empty t)") (auto simp: parse_airports_csv_def bind_err_def split: if_splits)
  then show ?thesis using c by auto
qed

lemma parquet_is_fresh_log:
  "parquet_is_fresh w = (b, w') \<Longrightarrow>
     csv_reader w' = csv_reader w \<and> AIRPORTS_CACHE w' = AIRPORTS_CACHE w
     \<and> (\<exists>es. io_log w' = io_log w @ PathExists # es)"
  by (auto simp: parquet_is_fresh_def log_io_def split: option.splits)

lemma read_parquet_env: "read_parquet w = (r, w') \<Longrightarrow> csv_reader w' = csv_reader w"
  by (auto simp: read_parquet_def log_io_def split: option.splits file_content.splits)

lemma load_airports_once_raises:
  assumes "load_airports_once force_refresh w = Inl e"
  shows "\<exists>t. csv_reader w t = Inl e"
proof -
  obtain b w1 where fr: "parquet_is_fresh w = (b, w1)" by (cases "parquet_is_fresh w")
  obtain r w2 where rd: "read_parquet w1 = (r, w2)" by (cases "read_parquet w1")
  have env: "csv_reader w1 = csv_reader w" "csv_reader w2 = csv_reader w"
    using parquet_is_fresh_log [OF fr] read_parquet_env [OF rd] by simp_all
  have "download_and_store w = Inl e \<or> download_and_store w1 = Inl e \<or> download_and_store w2 = Inl e"
    using assms fr rd
    by (cases b; cases r) (auto simp: load_airports_once_def split: if_splits)
  then show ?thesis
    using download_and_store_raises [of w e] download_and_store_raises [of w1 e]
      download_and_store_raises [of w2 e] env by auto
qed



text \<open>
  Claim C3 says that \<open>load_airports_once\<close> never raises. The calls that read and write
  the Parquet file are wrapped in \<open>try\<close>, and \<open>_download_text\<close> catches the exceptions
  of the request, but \<open>_parse_airports_csv\<close> is called outside any handler: on a first
  call without a cache file, when the primary source answers with a text that has a
  carriage return inside an unquoted field, the \<open>csv.Error\<close> of the reader leaves
  \<open>load_airports_once\<close>. No other exception does (\<open>load_airports_once_raises\<close>).
\<close>

theorem load_airports_once_csv_error:
  "load_airports_once False world_bare_cr = Inl CsvError"
  by (simp add: load_airports_once_def world_bare_cr_def parquet_is_fresh_def log_io_def
      download_and_store_def fetch_text_def download_text_def http_bare_cr_def or_empty_def
      parse_airports_csv_def reader_bare_cr_def bind_err_def csv_bare_cr_def csv_header_def)

text \<open>
  Claim C4. For a latitude outside \<open>[-90, 90]\<close> or a longitude outside \<open>[-180, 180]\<close>,
  \<open>get_nearest_airport\<close> returns no airport and the error \<open>Invalid coordinates\<close>, and
  leaves everything as it was: the cache variable, the Parquet file and the log of calls
  to the file system and the network, so nothing was read, written or loaded.
\<close>

theorem invalid_coordinates_rejected:
  assumes "\<not> valid_coords qlat qlon"
  shows "get_nearest_airport qlat qlon refresh_airports w
           = Inr (\<lparr>airport_name = None, error_text = Some ''Invalid coordinates''\<rparr>, w)"
  using assms by (simp add: get_nearest_airport_def)

theorem invalid_coordinates_rejected_witness:
  "\<not> valid_coords (Fin 91) (Fin 0)
   \<and> get_nearest_airport (Fin 91) (Fin 0) False world_offline
       = Inr (\<lparr>airport_name = None, error_text = Some ''Invalid coordinates''\<rparr>, world_offline)
   \<and> \<not> valid_coords (Fin 0) (Fin 181)
   \<and> get_nearest_airport (Fin 0) (Fin 181) True world_offline
       = Inr (\<lparr>airport_name = None, error_text = Some ''Invalid coordinates''\<rparr>, world_offline)"
proof -
  have a: "\<not> valid_coords (Fin 91) (Fin 0)" by (simp add: valid_coords_def)
  have b: "\<not> valid_coords (Fin 0) (Fin 181)" by (simp add: valid_coords_def)
  show ?thesis
    using a b invalid_coordinates_rejected [OF a, of False world_offline]
      invalid_coordinates_rejected [OF b, of True world_offline]
    by simp
qed





end
